theory Spec2Isabelle
  imports Complex_Main
begin

section \<open>JavaScript values used by the extension\<close>

text \<open>
  Conventions of the embedding.
  \<^item> A JavaScript \<open>number\<close> that is divided, multiplied by a fraction or rounded is a
    \<open>rat\<close>: arithmetic is exact, so the rounding error of IEEE doubles, \<open>NaN\<close> and the
    infinities are outside the model. The signal counts and all scores are such numbers.
  \<^item> A number that counts whole things (milliseconds, hours, tab identifiers, queue
    lengths) is an \<open>int\<close>.
  \<^item> An ISO-8601 time string (\<open>new Date(..).toISOString()\<close>) is the \<open>int\<close> number of
    milliseconds it denotes; comparing two \<open>Date\<close> objects compares these numbers.
  \<^item> An optional field \<open>f?: T\<close> is a \<open>T option\<close>, \<open>None\<close> for \<open>undefined\<close>.
  \<^item> Strings are lists of 8-bit characters.
  \<^item> Every read of the clock and every call of \<open>Math.random()\<close> is an explicit input of
    the function that performs it, one input per call site.
\<close>

type_synonym number = rat
type_synonym iso_time = int

definition Math_round :: "number \<Rightarrow> number" where
  "Math_round x = of_int \<lfloor>x + 1 / 2\<rfloor>"

definition Math_floor :: "number \<Rightarrow> int" where
  "Math_floor x = \<lfloor>x\<rfloor>"

definition toLowerCase_char :: "char \<Rightarrow> char" where
  "toLowerCase_char c =
     (let n = (of_char c :: nat) in if 65 \<le> n \<and> n \<le> 90 then char_of (n + 32) else c)"

definition toLowerCase :: "string \<Rightarrow> string" where
  "toLowerCase s = map toLowerCase_char s"

definition startsWith :: "string \<Rightarrow> string \<Rightarrow> bool" where
  "startsWith s p = (take (length p) s = p)"

definition endsWith :: "string \<Rightarrow> string \<Rightarrow> bool" where
  "endsWith s p = (length p \<le> length s \<and> drop (length s - length p) s = p)"

fun includes_str :: "string \<Rightarrow> string \<Rightarrow> bool" where
  "includes_str [] p = (p = [])"
| "includes_str (c # cs) p = (startsWith (c # cs) p \<or> includes_str cs p)"

text \<open>\<open>s.replace(p, r)\<close> with a string pattern replaces the first occurrence only.\<close>

fun replace :: "string \<Rightarrow> string \<Rightarrow> string \<Rightarrow> string" where
  "replace [] p r = (if p = [] then r else [])"
| "replace (c # cs) p r =
     (if startsWith (c # cs) p then r @ drop (length p) (c # cs) else c # replace cs p r)"

text \<open>\<open>xs.slice(0, n)\<close>: a negative end counts from the end of the array.\<close>

definition slice0 :: "'a list \<Rightarrow> int \<Rightarrow> 'a list" where
  "slice0 xs n =
     (let len = int (length xs);
          k = (if n < 0 then max (len + n) 0 else min n len)
      in take (nat k) xs)"

text \<open>Truthiness of an optional string: \<open>undefined\<close> and the empty string are falsy.\<close>

definition truthy_str :: "string option \<Rightarrow> bool" where
  "truthy_str v = (case v of None \<Rightarrow> False | Some s \<Rightarrow> s \<noteq> [])"


section \<open>Shared types (types/index.ts)\<close>

datatype SameSite = strict | lax | none

record CookieInfo =
  name :: string
  domain :: string
  secure :: bool
  httpOnly :: bool
  sameSite :: "SameSite option"
  expirationDate :: "number option"

record CookieSignal =
  count :: number
  thirdPartyCount :: number
  cookies :: "CookieInfo list"

record TrackerSignal =
  detected :: "string list"
  blocked :: number
  scripts :: "string list"

datatype Risk = low | medium | high

record FingerprintSignal =
  techniques :: "string list"
  risk :: Risk

record HeaderSignal =
  present :: "string list"
  missing :: "string list"
  issues :: "string list"

record SSLSignal =
  valid :: bool
  issuer :: "string option"
  expiresAt :: "iso_time option"
  protocol :: "string option"

record PageSignals =
  url :: string
  domain :: string
  timestamp :: iso_time
  cookies :: CookieSignal
  trackers :: TrackerSignal
  fingerprinting :: FingerprintSignal
  headers :: HeaderSignal
  ssl :: SSLSignal

datatype Verdict = safe | warning | danger

record SignalScores =
  cookies :: number
  trackers :: number
  fingerprinting :: number
  headers :: number
  ssl :: number

datatype ExplanationPhase = pending | generating | complete | failed

record ExplanationStatus =
  status :: ExplanationPhase
  text_value :: "string option"
  generatedAt :: "iso_time option"
  error :: "string option"

text \<open>
  An identifier built by \<open>generateId\<close> is the string
  \<open>`${Date.now()}-${Math.random().toString(36).substr(2, 9)}`\<close>; it is kept as the pair
  of its two parts, the clock reading and the base-36 digits of the random draw.
\<close>

type_synonym ident = "int \<times> string"

record AnalysisResult =
  id :: ident
  url :: string
  domain :: string
  trustScore :: number
  verdict :: Verdict
  signalScores :: SignalScores
  signals :: PageSignals
  analyzedAt :: iso_time
  explanation :: "ExplanationStatus option"

datatype ConnectionStatus = connected | disconnected | connecting | offline

record ExtensionStatus =
  isAuthenticated :: bool
  connectionStatus :: ConnectionStatus
  pendingAnalyses :: int
  offlineQueueSize :: int

record CachedAnalysis =
  result :: AnalysisResult
  cachedAt :: iso_time
  expiresAt :: iso_time

record OfflineQueueItem =
  id :: ident
  signals :: PageSignals
  queuedAt :: iso_time
  retryCount :: int

datatype DarkMode = auto | light | dark

record ExtensionSettings =
  autoAnalyze :: bool
  showNotifications :: bool
  cacheExpiration :: int
  darkMode :: DarkMode
  dashboardUrl :: string

definition DEFAULT_SETTINGS :: ExtensionSettings where
  "DEFAULT_SETTINGS =
     \<lparr>autoAnalyze = False, showNotifications = True, cacheExpiration = 24,
      darkMode = auto, dashboardUrl = ''http://localhost:5173''\<rparr>"


section \<open>Utilities (lib/utils.ts)\<close>

definition getVerdictFromScore :: "number \<Rightarrow> Verdict" where
  "getVerdictFromScore score =
     (if score \<ge> 70 then safe else if score \<ge> 40 then warning else danger)"

record ScoreColor =
  color :: string
  label :: string

definition getScoreColor :: "number \<Rightarrow> ScoreColor" where
  "getScoreColor score =
     (if score \<ge> 70 then \<lparr>color = ''hsl(152, 76%, 40%)'', label = ''Safe''\<rparr>
      else if score \<ge> 40 then \<lparr>color = ''hsl(38, 92%, 50%)'', label = ''Caution''\<rparr>
      else \<lparr>color = ''hsl(0, 84%, 60%)'', label = ''Risk''\<rparr>)"

definition generateId :: "int \<Rightarrow> string \<Rightarrow> ident" where
  "generateId now digits = (now, digits)"

text \<open>
  \<open>getDomainFromUrl\<close> asks the platform's \<open>URL\<close> parser for the host name and returns
  the input unchanged when the parser throws. The parser is a parameter: \<open>None\<close> is a
  thrown \<open>TypeError\<close>.
\<close>

definition getDomainFromUrl :: "(string \<Rightarrow> string option) \<Rightarrow> string \<Rightarrow> string" where
  "getDomainFromUrl hostname u = (case hostname u of Some h \<Rightarrow> h | None \<Rightarrow> u)"

text \<open>The order danger < warning < safe of the three verdicts.\<close>

fun verdict_rank :: "Verdict \<Rightarrow> nat" where
  "verdict_rank danger = 0"
| "verdict_rank warning = 1"
| "verdict_rank safe = 2"


section \<open>Simulated analysis (background/simulation.ts)\<close>

definition TRUSTED_DOMAINS :: "string list" where
  "TRUSTED_DOMAINS =
     [''google.com'', ''www.google.com'',
      ''github.com'', ''www.github.com'',
      ''stackoverflow.com'', ''www.stackoverflow.com'',
      ''amazon.com'', ''www.amazon.com'',
      ''microsoft.com'', ''www.microsoft.com'',
      ''apple.com'', ''www.apple.com'',
      ''facebook.com'', ''www.facebook.com'',
      ''twitter.com'', ''www.twitter.com'', ''x.com'',
      ''linkedin.com'', ''www.linkedin.com'',
      ''youtube.com'', ''www.youtube.com'',
      ''netflix.com'', ''www.netflix.com'',
      ''reddit.com'', ''www.reddit.com'',
      ''wikipedia.org'', ''en.wikipedia.org'',
      ''medium.com'', ''www.medium.com'',
      ''vercel.app'', ''vercel.com'',
      ''netlify.app'', ''netlify.com'',
      ''cloudflare.com'', ''www.cloudflare.com'']"

definition SUSPICIOUS_PATTERNS :: "string list" where
  "SUSPICIOUS_PATTERNS =
     [''free'', ''prize'', ''winner'', ''click'', ''urgent'',
      ''download'', ''crack'', ''keygen'', ''warez'',
      ''casino'', ''bet'', ''lottery'',
      ''.xyz'', ''.top'', ''.click'', ''.loan'', ''.work'']"

definition COMMON_TRACKERS :: "string list" where
  "COMMON_TRACKERS =
     [''Google Analytics'', ''Facebook Pixel'', ''Google Tag Manager'', ''Hotjar'',
      ''Mixpanel'', ''Segment'', ''Amplitude'', ''Intercom'']"

definition requiredHeaders :: "string list" where
  "requiredHeaders =
     [''Content-Security-Policy'', ''X-Frame-Options'', ''X-Content-Type-Options'',
      ''Strict-Transport-Security'']"

definition trustedCAs :: "string list" where
  "trustedCAs = [''DigiCert'', ''Let's Encrypt'', ''Comodo'', ''GlobalSign'', ''GeoTrust'']"

fun riskPenalty :: "Risk \<Rightarrow> number" where
  "riskPenalty low = 0"
| "riskPenalty medium = 20"
| "riskPenalty high = 40"

definition cookieScore :: "CookieSignal \<Rightarrow> number" where
  "cookieScore cs =
     (if count cs > 0 then
        (let thirdPartyRatio = thirdPartyCount cs / count cs;
             secureCount = of_nat (length (filter (\<lambda>c. secure c \<and> httpOnly c)
                                      (CookieSignal.cookies cs)));
             secureRatio = secureCount / max (count cs) 1
         in 85 - Math_round (thirdPartyRatio * 30) + Math_round (secureRatio * 15))
      else 85)"

definition trackerScore :: "TrackerSignal \<Rightarrow> number" where
  "trackerScore ts = max 40 (90 - of_nat (length (detected ts)) * 5)"

definition fingerprintScore :: "FingerprintSignal \<Rightarrow> number" where
  "fingerprintScore fs = 95 - riskPenalty (risk fs) - of_nat (length (techniques fs)) * 5"

definition headerScore :: "HeaderSignal \<Rightarrow> number" where
  "headerScore hs =
     (let presentRequired =
            of_nat (length (filter (\<lambda>h. h \<in> set requiredHeaders) (present hs)))
      in 80 + (presentRequired / of_nat (length requiredHeaders)) * 20
            - of_nat (length (missing hs)) * 5
            - of_nat (length (issues hs)) * 10)"

definition sslScore :: "SSLSignal \<Rightarrow> number" where
  "sslScore s =
     (let score = (if valid s then 100 else 30)
      in if valid s \<and> truthy_str (issuer s) then
           (if list_ex (\<lambda>ca. includes_str (the (issuer s)) ca) trustedCAs then 100 else score)
         else score)"

definition clamp100 :: "number \<Rightarrow> number" where
  "clamp100 x = min 100 (max 0 (Math_round x))"

definition calculateSignalScores :: "PageSignals \<Rightarrow> bool \<Rightarrow> bool \<Rightarrow> SignalScores" where
  "calculateSignalScores sg isTrusted isSuspicious =
     (let baseMultiplier = (if isTrusted then 12 / 10 else if isSuspicious then 6 / 10 else 1)
      in \<lparr>SignalScores.cookies = clamp100 (cookieScore (PageSignals.cookies sg) * baseMultiplier),
          SignalScores.trackers = clamp100 (trackerScore (PageSignals.trackers sg) * baseMultiplier),
          SignalScores.fingerprinting =
            clamp100 (fingerprintScore (PageSignals.fingerprinting sg) * baseMultiplier),
          SignalScores.headers = clamp100 (headerScore (PageSignals.headers sg) * baseMultiplier),
          SignalScores.ssl = clamp100 (sslScore (PageSignals.ssl sg))\<rparr>)"

text \<open>
  The inputs that one call of \<open>simulateAnalysis\<close> takes from the platform: the value of
  each \<open>Math.random()\<close> call site and of each clock read, in source order.
\<close>

record SimEnv =
  rnd_numTrackers :: number
  rnd_techniques :: number
  rnd_issuer :: number
  now_sslExpiry :: int
  now_id :: int
  rnd_id_digits :: string
  now_analyzedAt :: int

text \<open>\<open>xs[i]\<close> is \<open>undefined\<close> outside the array.\<close>

definition index_opt :: "'a list \<Rightarrow> int \<Rightarrow> 'a option" where
  "index_opt xs i = (if 0 \<le> i \<and> i < int (length xs) then Some (xs ! nat i) else None)"

definition enhanceTrackers :: "SimEnv \<Rightarrow> bool \<Rightarrow> TrackerSignal \<Rightarrow> TrackerSignal" where
  "enhanceTrackers env isTrusted ts =
     (if length (detected ts) = 0 then
        (let numTrackers = (if isTrusted then Math_floor (rnd_numTrackers env * 3)
                            else Math_floor (rnd_numTrackers env * 5) + 2)
         in ts\<lparr>detected := slice0 COMMON_TRACKERS numTrackers\<rparr>)
      else ts)"

definition enhanceHeaders :: "bool \<Rightarrow> HeaderSignal \<Rightarrow> HeaderSignal" where
  "enhanceHeaders isTrusted hs =
     (if length (present hs) = 0 \<and> length (missing hs) = 0 then
        (if isTrusted then
           \<lparr>present = [''Content-Security-Policy'', ''X-Frame-Options'',
                       ''X-Content-Type-Options'', ''Strict-Transport-Security''],
            missing = [''Permissions-Policy''],
            issues = []\<rparr>
         else
           \<lparr>present = [''X-Content-Type-Options''],
            missing = [''Content-Security-Policy'', ''X-Frame-Options'',
                       ''Strict-Transport-Security'', ''Permissions-Policy''],
            issues = [''Missing critical security headers'']\<rparr>)
      else hs)"

definition enhanceFingerprinting ::
  "SimEnv \<Rightarrow> bool \<Rightarrow> FingerprintSignal \<Rightarrow> FingerprintSignal" where
  "enhanceFingerprinting env isTrusted fs =
     (if length (techniques fs) = 0 then
        (let techs = (if isTrusted then []
                      else slice0 [''Canvas'', ''WebGL'']
                             (Math_floor (rnd_techniques env * 2) + 1))
         in \<lparr>techniques = techs,
             risk = (if length techs = 0 then low
                     else if length techs = 1 then medium else high)\<rparr>)
      else fs)"

definition enhanceSSL :: "SimEnv \<Rightarrow> SSLSignal \<Rightarrow> SSLSignal" where
  "enhanceSSL env s =
     (if valid s \<and> \<not> truthy_str (issuer s) then
        (let issuers = [''Let's Encrypt'', ''DigiCert Inc'', ''GlobalSign'', ''Comodo CA'']
         in s\<lparr>issuer := index_opt issuers
                             (Math_floor (rnd_issuer env * of_nat (length issuers))),
              SSLSignal.expiresAt := Some (now_sslExpiry env + 1000 * 60 * 60 * 24 * 90),
              protocol := Some ''TLS 1.3''\<rparr>)
      else s)"

definition enhanceSignals :: "SimEnv \<Rightarrow> PageSignals \<Rightarrow> bool \<Rightarrow> PageSignals" where
  "enhanceSignals env sg isTrusted =
     sg\<lparr>PageSignals.trackers := enhanceTrackers env isTrusted (PageSignals.trackers sg),
        PageSignals.headers := enhanceHeaders isTrusted (PageSignals.headers sg),
        PageSignals.fingerprinting :=
          enhanceFingerprinting env isTrusted (PageSignals.fingerprinting sg),
        PageSignals.ssl := enhanceSSL env (PageSignals.ssl sg)\<rparr>"

definition isTrustedDomain :: "string \<Rightarrow> bool" where
  "isTrustedDomain d =
     list_ex (\<lambda>td. d = td \<or> endsWith d (''.'' @ replace td ''www.'' [])) TRUSTED_DOMAINS"

definition isSuspiciousSite :: "string \<Rightarrow> string \<Rightarrow> bool" where
  "isSuspiciousSite d u =
     list_ex (\<lambda>pattern. includes_str d pattern \<or> includes_str (toLowerCase u) pattern)
       SUSPICIOUS_PATTERNS"

definition weightedTrustScore :: "SignalScores \<Rightarrow> number" where
  "weightedTrustScore sc =
     Math_round (SignalScores.ssl sc * (25 / 100) +
                 SignalScores.headers sc * (20 / 100) +
                 SignalScores.cookies sc * (20 / 100) +
                 SignalScores.trackers sc * (20 / 100) +
                 SignalScores.fingerprinting sc * (15 / 100))"

definition simulateAnalysis :: "SimEnv \<Rightarrow> PageSignals \<Rightarrow> AnalysisResult" where
  "simulateAnalysis env sg =
     (let d = toLowerCase (PageSignals.domain sg);
          isTrusted = isTrustedDomain d;
          isSuspicious = isSuspiciousSite d (PageSignals.url sg);
          enhancedSignals = enhanceSignals env sg isTrusted;
          scores = calculateSignalScores enhancedSignals isTrusted isSuspicious;
          trust = weightedTrustScore scores
      in \<lparr>AnalysisResult.id = generateId (now_id env) (rnd_id_digits env),
          AnalysisResult.url = PageSignals.url sg,
          AnalysisResult.domain = PageSignals.domain sg,
          trustScore = trust,
          verdict = getVerdictFromScore trust,
          signalScores = scores,
          AnalysisResult.signals = enhancedSignals,
          analyzedAt = now_analyzedAt env,
          explanation = Some \<lparr>status = pending, text_value = None,
                                generatedAt = None, error = None\<rparr>\<rparr>)"


section \<open>Background service worker (background/index.ts)\<close>

text \<open>
  The worker's state: the three keys of \<open>chrome.storage.local\<close> it uses (\<open>None\<close> when
  the key was never written), the module variables \<open>extensionStatus\<close> and
  \<open>pendingSignalCollections\<close>, and the promises created by \<open>collectSignalsFromTab\<close>.
  A resolver stored in \<open>pendingSignalCollections\<close> is the number of the promise it
  settles. \<open>statusUpdates\<close> records the \<open>STATUS_UPDATE\<close> broadcasts and \<open>resolveCalls\<close>
  every invocation of a resolver, in order. Each function body runs without
  interleaving with another one.
\<close>

record PartialSettings =
  autoAnalyze :: "bool option"
  showNotifications :: "bool option"
  cacheExpiration :: "int option"
  darkMode :: "DarkMode option"
  dashboardUrl :: "string option"

datatype 'a Promise = Pending | Fulfilled 'a | Rejected string

record Worker =
  cachedResults :: "(string \<rightharpoonup> CachedAnalysis) option"
  offlineQueue :: "OfflineQueueItem list option"
  settings :: "PartialSettings option"
  extensionStatus :: ExtensionStatus
  statusUpdates :: "ExtensionStatus list"
  pendingSignalCollections :: "int \<rightharpoonup> nat"
  promises :: "nat \<rightharpoonup> PageSignals Promise"
  nextPromise :: nat
  resolveCalls :: "(nat \<times> PageSignals) list"

text \<open>
  Whether the calls of \<open>chrome.storage.local.get\<close> and of \<open>chrome.storage.local.set\<close>
  made by one invocation reject; a rejection lands in the function's \<open>catch\<close> block.
\<close>

record StorageIO =
  getRejects :: bool
  setRejects :: bool

definition storageWorks :: StorageIO where
  "storageWorks = \<lparr>getRejects = False, setRejects = False\<rparr>"

definition initialWorker :: Worker where
  "initialWorker =
     \<lparr>cachedResults = None, offlineQueue = None, settings = None,
      extensionStatus = \<lparr>isAuthenticated = False, connectionStatus = offline,
                         pendingAnalyses = 0, offlineQueueSize = 0\<rparr>,
      statusUpdates = [],
      pendingSignalCollections = Map.empty,
      promises = Map.empty,
      nextPromise = 0,
      resolveCalls = []\<rparr>"

text \<open>\<open>{ ...DEFAULT_SETTINGS, ...(result.settings || {}) }\<close>\<close>

definition mergeSettings :: "ExtensionSettings \<Rightarrow> PartialSettings option \<Rightarrow> ExtensionSettings" where
  "mergeSettings d stored =
     (case stored of
        None \<Rightarrow> d
      | Some p \<Rightarrow>
          \<lparr>ExtensionSettings.autoAnalyze =
             (case PartialSettings.autoAnalyze p of Some v \<Rightarrow> v
              | None \<Rightarrow> ExtensionSettings.autoAnalyze d),
           ExtensionSettings.showNotifications =
             (case PartialSettings.showNotifications p of Some v \<Rightarrow> v
              | None \<Rightarrow> ExtensionSettings.showNotifications d),
           ExtensionSettings.cacheExpiration =
             (case PartialSettings.cacheExpiration p of Some v \<Rightarrow> v
              | None \<Rightarrow> ExtensionSettings.cacheExpiration d),
           ExtensionSettings.darkMode =
             (case PartialSettings.darkMode p of Some v \<Rightarrow> v
              | None \<Rightarrow> ExtensionSettings.darkMode d),
           ExtensionSettings.dashboardUrl =
             (case PartialSettings.dashboardUrl p of Some v \<Rightarrow> v
              | None \<Rightarrow> ExtensionSettings.dashboardUrl d)\<rparr>)"

definition getSettings :: "StorageIO \<Rightarrow> Worker \<Rightarrow> ExtensionSettings" where
  "getSettings io w =
     (if getRejects io then DEFAULT_SETTINGS else mergeSettings DEFAULT_SETTINGS (settings w))"

definition getCachedResult ::
  "StorageIO \<Rightarrow> iso_time \<Rightarrow> string \<Rightarrow> Worker \<Rightarrow> CachedAnalysis option \<times> Worker" where
  "getCachedResult io now dmn w =
     (if getRejects io then (None, w)
      else case cachedResults w of
        None \<Rightarrow> (None, w)
      | Some cached \<Rightarrow>
          (case cached dmn of
             None \<Rightarrow> (None, w)
           | Some cachedItem \<Rightarrow>
               if CachedAnalysis.expiresAt cachedItem < now then
                 (if setRejects io then (None, w)
                  else (None, w\<lparr>cachedResults := Some (cached(dmn := None))\<rparr>))
               else (Some cachedItem, w)))"

text \<open>
  \<open>setCachedResult\<close> reads the clock twice: \<open>new Date()\<close> for \<open>cachedAt\<close> and
  \<open>Date.now()\<close> for \<open>expiresAt\<close>.
\<close>

definition setCachedResult ::
  "StorageIO \<Rightarrow> iso_time \<Rightarrow> iso_time \<Rightarrow> string \<Rightarrow> AnalysisResult \<Rightarrow> Worker \<Rightarrow> Worker" where
  "setCachedResult io t_cachedAt t_expiry dmn res w =
     (let expirationHours = ExtensionSettings.cacheExpiration (getSettings io w)
      in if getRejects io then w
         else
           (let cached = (case cachedResults w of Some c \<Rightarrow> c | None \<Rightarrow> Map.empty);
                cached' = cached(dmn \<mapsto>
                            \<lparr>result = res,
                             cachedAt = t_cachedAt,
                             CachedAnalysis.expiresAt =
                               t_expiry + expirationHours * 60 * 60 * 1000\<rparr>)
            in if setRejects io then w else w\<lparr>cachedResults := Some cached'\<rparr>))"

definition getOfflineQueue :: "StorageIO \<Rightarrow> Worker \<Rightarrow> OfflineQueueItem list" where
  "getOfflineQueue io w =
     (if getRejects io then []
      else case offlineQueue w of Some q \<Rightarrow> q | None \<Rightarrow> [])"

text \<open>
  \<open>updateStatus(partial)\<close>: the partial object is the record update it stands for.
\<close>

definition updateStatus :: "(ExtensionStatus \<Rightarrow> ExtensionStatus) \<Rightarrow> Worker \<Rightarrow> Worker" where
  "updateStatus partial w =
     (let s = partial (extensionStatus w)
      in w\<lparr>extensionStatus := s, statusUpdates := statusUpdates w @ [s]\<rparr>)"

definition addToOfflineQueue ::
  "StorageIO \<Rightarrow> int \<Rightarrow> string \<Rightarrow> iso_time \<Rightarrow> PageSignals \<Rightarrow> Worker \<Rightarrow> Worker" where
  "addToOfflineQueue io t_id digits t_queuedAt sg w =
     (let queue = getOfflineQueue io w;
          queue' = queue @ [\<lparr>OfflineQueueItem.id = generateId t_id digits,
                             OfflineQueueItem.signals = sg,
                             queuedAt = t_queuedAt,
                             retryCount = 0\<rparr>]
      in if setRejects io then w
         else updateStatus (\<lambda>s. s\<lparr>offlineQueueSize := int (length queue')\<rparr>)
                (w\<lparr>offlineQueue := Some queue'\<rparr>))"

definition removeFromOfflineQueue :: "StorageIO \<Rightarrow> ident \<Rightarrow> Worker \<Rightarrow> Worker" where
  "removeFromOfflineQueue io ident w =
     (let queue = getOfflineQueue io w;
          filtered = filter (\<lambda>item. OfflineQueueItem.id item \<noteq> ident) queue
      in if setRejects io then w
         else updateStatus (\<lambda>s. s\<lparr>offlineQueueSize := int (length filtered)\<rparr>)
                (w\<lparr>offlineQueue := Some filtered\<rparr>))"

subsection \<open>Signal collection\<close>

text \<open>Settling a promise has an effect only while the promise is pending.\<close>

definition settle :: "nat \<Rightarrow> PageSignals Promise \<Rightarrow> Worker \<Rightarrow> Worker" where
  "settle p v w =
     (if promises w p = Some Pending then w\<lparr>promises := (promises w)(p \<mapsto> v)\<rparr> else w)"

definition resolvePromise :: "nat \<Rightarrow> PageSignals \<Rightarrow> Worker \<Rightarrow> Worker" where
  "resolvePromise p sg w = settle p (Fulfilled sg) (w\<lparr>resolveCalls := resolveCalls w @ [(p, sg)]\<rparr>)"

definition rejectPromise :: "nat \<Rightarrow> string \<Rightarrow> Worker \<Rightarrow> Worker" where
  "rejectPromise p e w = settle p (Rejected e) w"

text \<open>
  The first statement of \<open>collectSignalsFromTab\<close>: a new promise, whose resolver is
  stored under the tab identifier.
\<close>

definition registerCollection :: "int \<Rightarrow> Worker \<Rightarrow> nat \<times> Worker" where
  "registerCollection tabId w =
     (let p = nextPromise w
      in (p, w\<lparr>nextPromise := p + 1,
               promises := (promises w)(p \<mapsto> Pending),
               pendingSignalCollections := (pendingSignalCollections w)(tabId \<mapsto> p)\<rparr>))"

definition fallbackSignals :: "(string \<Rightarrow> string option) \<Rightarrow> iso_time \<Rightarrow> string \<Rightarrow> PageSignals" where
  "fallbackSignals hostname now u =
     \<lparr>PageSignals.url = u,
      PageSignals.domain = getDomainFromUrl hostname u,
      timestamp = now,
      PageSignals.cookies = \<lparr>count = 0, thirdPartyCount = 0, CookieSignal.cookies = []\<rparr>,
      PageSignals.trackers = \<lparr>detected = [], blocked = 0, scripts = []\<rparr>,
      PageSignals.fingerprinting = \<lparr>techniques = [], risk = low\<rparr>,
      PageSignals.headers = \<lparr>present = [], missing = [], issues = []\<rparr>,
      PageSignals.ssl = \<lparr>valid = startsWith u ''https://'', issuer = None,
                         SSLSignal.expiresAt = None, protocol = None\<rparr>\<rparr>"

text \<open>The callback of \<open>setTimeout(.., 10000)\<close> of the collection that owns promise \<open>p\<close>.\<close>

definition collectionTimeout ::
  "(string \<Rightarrow> string option) \<Rightarrow> iso_time \<Rightarrow> int \<Rightarrow> nat \<Rightarrow> string \<Rightarrow> Worker \<Rightarrow> Worker" where
  "collectionTimeout hostname now tabId p u w =
     (if pendingSignalCollections w tabId \<noteq> None then
        resolvePromise p (fallbackSignals hostname now u)
          (w\<lparr>pendingSignalCollections := (pendingSignalCollections w)(tabId := None)\<rparr>)
      else w)"

text \<open>
  The \<open>SIGNALS_COLLECTED\<close> case of the message handler; \<open>sender.tab?.id\<close> is the first
  argument, and the tab identifier \<open>0\<close> is falsy.
\<close>

definition handle_SIGNALS_COLLECTED :: "int option \<Rightarrow> PageSignals \<Rightarrow> Worker \<Rightarrow> Worker" where
  "handle_SIGNALS_COLLECTED senderTab sg w =
     (case senderTab of
        None \<Rightarrow> w
      | Some tabId \<Rightarrow>
          (if tabId \<noteq> 0 then
             (case pendingSignalCollections w tabId of
                None \<Rightarrow> w
              | Some resolver \<Rightarrow>
                  (let w' = resolvePromise resolver sg w
                   in w'\<lparr>pendingSignalCollections :=
                           (pendingSignalCollections w')(tabId := None)\<rparr>))
           else w))"

text \<open>
  What the browser does during one collection: the outcome of the first
  \<open>chrome.tabs.sendMessage\<close>, of \<open>chrome.scripting.executeScript\<close>, of the second
  \<open>sendMessage\<close>, and the \<open>SIGNALS_COLLECTED\<close> message the content script sends back
  before the timer fires, if it sends one.
\<close>

datatype Outcome = Succeeds | Rejects string

record TabBehaviour =
  firstSend :: Outcome
  injection :: Outcome
  retrySend :: Outcome
  reply :: "PageSignals option"

definition delivered :: "TabBehaviour \<Rightarrow> bool" where
  "delivered b =
     (firstSend b = Succeeds \<or> (injection b = Succeeds \<and> retrySend b = Succeeds))"

text \<open>
  One run of \<open>collectSignalsFromTab(tabId, url)\<close> up to the moment its timer has fired:
  the resolver is registered, the send and injection callbacks run, a delivered request
  may be answered, and the timer fires. The result is the state of the returned promise.
\<close>

definition collectSignalsFromTab ::
  "(string \<Rightarrow> string option) \<Rightarrow> iso_time \<Rightarrow> TabBehaviour \<Rightarrow> int \<Rightarrow> string \<Rightarrow> Worker
     \<Rightarrow> PageSignals Promise option \<times> Worker" where
  "collectSignalsFromTab hostname now b tabId u w =
     (let (p, w1) = registerCollection tabId w;
          w2 = (case firstSend b of
                  Succeeds \<Rightarrow> w1
                | Rejects _ \<Rightarrow>
                    (case injection b of
                       Rejects e \<Rightarrow>
                         rejectPromise p e
                           (w1\<lparr>pendingSignalCollections :=
                                 (pendingSignalCollections w1)(tabId := None)\<rparr>)
                     | Succeeds \<Rightarrow>
                         (case retrySend b of
                            Rejects e \<Rightarrow> rejectPromise p e w1
                          | Succeeds \<Rightarrow> w1)));
          w3 = (case reply b of
                  Some sg \<Rightarrow> if delivered b then handle_SIGNALS_COLLECTED (Some tabId) sg w2 else w2
                | None \<Rightarrow> w2);
          w4 = collectionTimeout hostname now tabId p u w3
      in (promises w4 p, w4))"

text \<open>
  What the \<open>ANALYZE_PAGE\<close> case does with the awaited promise after a cache miss: a
  rejection leaves \<open>handleAsync\<close> as an exception and is answered by
  \<open>sendResponse({ error: error.message })\<close>; a fulfilled promise is passed on to
  \<open>analyzeSignals\<close>; a pending promise keeps the request waiting.
\<close>

datatype Continuation = RespondError string | Analyze PageSignals | Waiting

definition awaitCollection :: "PageSignals Promise option \<Rightarrow> Continuation" where
  "awaitCollection pr =
     (case pr of
        Some (Rejected e) \<Rightarrow> RespondError e
      | Some (Fulfilled sg) \<Rightarrow> Analyze sg
      | _ \<Rightarrow> Waiting)"


section \<open>Inputs used for evaluation\<close>

text \<open>A score as the specification describes it: a whole number between 0 and 100.\<close>

definition inScoreRange :: "number \<Rightarrow> bool" where
  "inScoreRange x = (of_int \<lfloor>x\<rfloor> = x \<and> 0 \<le> x \<and> x \<le> 100)"

text \<open>
  The bundle that the collector's fallback produces for the page
  \<open>http://free-prize.xyz/\<close>: nothing detected, no TLS.
\<close>

definition suspiciousBundle :: PageSignals where
  "suspiciousBundle =
     \<lparr>PageSignals.url = ''http://free-prize.xyz/'',
      PageSignals.domain = ''free-prize.xyz'',
      timestamp = 0,
      PageSignals.cookies = \<lparr>count = 0, thirdPartyCount = 0, CookieSignal.cookies = []\<rparr>,
      PageSignals.trackers = \<lparr>detected = [], blocked = 0, scripts = []\<rparr>,
      PageSignals.fingerprinting = \<lparr>techniques = [], risk = low\<rparr>,
      PageSignals.headers = \<lparr>present = [], missing = [], issues = []\<rparr>,
      PageSignals.ssl = \<lparr>valid = False, issuer = None,
                         SSLSignal.expiresAt = None, protocol = None\<rparr>\<rparr>"

text \<open>A bundle as the content script sends it for \<open>https://example.org/\<close>.\<close>

definition collectedSignals :: PageSignals where
  "collectedSignals =
     \<lparr>PageSignals.url = ''https://example.org/'',
      PageSignals.domain = ''example.org'',
      timestamp = 500,
      PageSignals.cookies =
        \<lparr>count = 2, thirdPartyCount = 0,
         CookieSignal.cookies =
           [\<lparr>name = ''sid'', CookieInfo.domain = ''example.org'', secure = True,
             httpOnly = False, sameSite = None, expirationDate = None\<rparr>,
            \<lparr>name = ''lang'', CookieInfo.domain = ''example.org'', secure = True,
             httpOnly = False, sameSite = None, expirationDate = None\<rparr>]\<rparr>,
      PageSignals.trackers = \<lparr>detected = [''Hotjar''], blocked = 0, scripts = []\<rparr>,
      PageSignals.fingerprinting = \<lparr>techniques = [''Canvas''], risk = medium\<rparr>,
      PageSignals.headers =
        \<lparr>present = [''Referrer-Policy (meta)''], missing = [], issues = []\<rparr>,
      PageSignals.ssl = \<lparr>valid = True, issuer = None,
                         SSLSignal.expiresAt = None, protocol = None\<rparr>\<rparr>"

text \<open>Two runs that differ only in what \<open>Math.random()\<close> returns.\<close>

definition drawsLow :: SimEnv where
  "drawsLow =
     \<lparr>rnd_numTrackers = 0, rnd_techniques = 0, rnd_issuer = 0, now_sslExpiry = 2000,
      now_id = 2000, rnd_id_digits = ''k3j9x0q2a'', now_analyzedAt = 2000\<rparr>"

definition drawsHigh :: SimEnv where
  "drawsHigh =
     \<lparr>rnd_numTrackers = 9 / 10, rnd_techniques = 9 / 10, rnd_issuer = 3 / 4,
      now_sslExpiry = 2000, now_id = 2000, rnd_id_digits = ''k3j9x0q2a'',
      now_analyzedAt = 2000\<rparr>"

definition exampleResult :: AnalysisResult where
  "exampleResult = simulateAnalysis drawsLow collectedSignals"

definition laterResult :: AnalysisResult where
  "laterResult = simulateAnalysis drawsHigh collectedSignals"

definition exampleHostname :: "string \<Rightarrow> string option" where
  "exampleHostname u =
     (if u = ''https://example.org/'' then Some ''example.org''
      else if u = ''https://example.net/'' then Some ''example.net''
      else None)"


text \<open>A worker whose cache holds one entry for each of two domains.\<close>

definition staleCacheWorker :: Worker where
  "staleCacheWorker =
     initialWorker\<lparr>cachedResults :=
       Some [''example.org'' \<mapsto>
               \<lparr>result = exampleResult, cachedAt = 1000, CachedAnalysis.expiresAt = 86401000\<rparr>,
             ''example.net'' \<mapsto>
               \<lparr>result = laterResult, cachedAt = 5000, CachedAnalysis.expiresAt = 86405000\<rparr>]\<rparr>"

text \<open>A worker whose offline queue holds one item, mirrored in its status.\<close>

definition queuedItem :: OfflineQueueItem where
  "queuedItem =
     \<lparr>OfflineQueueItem.id = generateId 1000 ''a1b2c3d4e'',
      OfflineQueueItem.signals = suspiciousBundle, queuedAt = 1000, retryCount = 0\<rparr>"

definition queuedWorker :: Worker where
  "queuedWorker =
     initialWorker\<lparr>offlineQueue := Some [queuedItem],
                   extensionStatus := (extensionStatus initialWorker)\<lparr>offlineQueueSize := 1\<rparr>\<rparr>"

text \<open>
  A tab that cannot be reached (no content script, and the page refuses injection), and
  a tab that takes the request and never answers.
\<close>

definition unreachableTab :: TabBehaviour where
  "unreachableTab =
     \<lparr>firstSend = Rejects ''Could not establish connection. Receiving end does not exist.'',
      injection = Rejects ''Cannot access contents of the page.'',
      retrySend = Succeeds,
      reply = None\<rparr>"

definition silentTab :: TabBehaviour where
  "silentTab = \<lparr>firstSend = Succeeds, injection = Succeeds, retrySend = Succeeds, reply = None\<rparr>"

text \<open>
  Two collections on tab 7. The first is answered by the content script, which resolves
  it; its timer stays armed, since nothing cancels it. The second is registered while
  that timer is armed and gets no answer. Then the first timer fires, and later the
  second.
\<close>

definition staleTimerTrace :: Worker where
  "staleTimerTrace =
     (let (pA, w1) = registerCollection 7 initialWorker;
          w2 = handle_SIGNALS_COLLECTED (Some 7) collectedSignals w1;
          (pB, w3) = registerCollection 7 w2;
          w4 = collectionTimeout exampleHostname 10000 7 pA ''https://example.org/'' w3;
          w5 = collectionTimeout exampleHostname 14000 7 pB ''https://example.net/'' w4
      in w5)"


section \<open>Scores and verdicts\<close>

lemma clamp100_in_range: "inScoreRange (clamp100 x)"
proof -
  have "0 \<le> clamp100 x" and "clamp100 x \<le> 100"
    by (auto simp: clamp100_def)
  moreover have "of_int \<lfloor>clamp100 x\<rfloor> = clamp100 x"
  proof -
    have "clamp100 x = of_int (min 100 (max 0 \<lfloor>x + 1 / 2\<rfloor>))"
      by (simp add: clamp100_def Math_round_def)
    then show ?thesis by (simp only: floor_of_int)
  qed
  ultimately show ?thesis
    by (simp add: inScoreRange_def)
qed

lemma calculateSignalScores_in_range:
  "inScoreRange (SignalScores.cookies (calculateSignalScores sg t s))"
  "inScoreRange (SignalScores.trackers (calculateSignalScores sg t s))"
  "inScoreRange (SignalScores.fingerprinting (calculateSignalScores sg t s))"
  "inScoreRange (SignalScores.headers (calculateSignalScores sg t s))"
  "inScoreRange (SignalScores.ssl (calculateSignalScores sg t s))"
  by (simp_all add: calculateSignalScores_def Let_def clamp100_in_range)

text \<open>
  The weights are non-negative and add up to one, so the weighted sum of five scores in
  the range stays in the range, and so does its rounding.
\<close>

lemma weightedTrustScore_in_range:
  assumes "inScoreRange (SignalScores.ssl sc)" and "inScoreRange (SignalScores.headers sc)"
    and "inScoreRange (SignalScores.cookies sc)" and "inScoreRange (SignalScores.trackers sc)"
    and "inScoreRange (SignalScores.fingerprinting sc)"
  shows "inScoreRange (weightedTrustScore sc)"
proof -
  let ?x = "SignalScores.ssl sc * (25 / 100) +
            SignalScores.headers sc * (20 / 100) +
            SignalScores.cookies sc * (20 / 100) +
            SignalScores.trackers sc * (20 / 100) +
            SignalScores.fingerprinting sc * (15 / 100)"
  have lo: "0 \<le> ?x" using assms by (simp add: inScoreRange_def)
  have hi: "?x \<le> 100" using assms by (simp add: inScoreRange_def)
  have "(0::int) \<le> \<lfloor>?x + 1 / 2\<rfloor>" using lo by (simp add: zero_le_floor)
  moreover have "\<lfloor>?x + 1 / 2\<rfloor> \<le> (100::int)" using hi by (simp add: floor_le_iff)
  ultimately show ?thesis
    unfolding inScoreRange_def weightedTrustScore_def Math_round_def
    by simp
qed



text \<open>
  Claim C2. On whole-number scores \<open>getVerdictFromScore\<close> is a monotonic step function:
  the verdict is safe exactly from 70 on, warning exactly from 40 to 69, danger exactly
  below 40; a larger score never has a lower verdict; 70 is safe, 69 and 40 are warning,
  39 is danger.
\<close>

theorem getVerdictFromScore_step_function:
  fixes n m :: int
  shows "(getVerdictFromScore (of_int n) = safe \<longleftrightarrow> 70 \<le> n) \<and>
         (getVerdictFromScore (of_int n) = warning \<longleftrightarrow> 40 \<le> n \<and> n < 70) \<and>
         (getVerdictFromScore (of_int n) = danger \<longleftrightarrow> n < 40) \<and>
         (n \<le> m \<longrightarrow> verdict_rank (getVerdictFromScore (of_int n))
                      \<le> verdict_rank (getVerdictFromScore (of_int m))) \<and>
         getVerdictFromScore 70 = safe \<and> getVerdictFromScore 69 = warning \<and>
         getVerdictFromScore 40 = warning \<and> getVerdictFromScore 39 = danger"
  by (auto simp: getVerdictFromScore_def)

theorem getVerdictFromScore_step_function_witness:
  "(39::int) \<le> 70 \<and>
   verdict_rank (getVerdictFromScore (of_int 39)) \<le> verdict_rank (getVerdictFromScore (of_int 70)) \<and>
   getVerdictFromScore (of_int 39) = danger \<and> getVerdictFromScore (of_int 70) = safe"
  using getVerdictFromScore_step_function [of 39 70]
    getVerdictFromScore_step_function [of 70 70]
  by simp

lemma sslScore_value: "sslScore s = (if valid s then 100 else 30)"
  by (simp add: sslScore_def Let_def)

lemma enhanceSSL_valid: "valid (enhanceSSL env s) = valid s"
  by (simp add: enhanceSSL_def Let_def)

lemma clamp100_sslScore: "clamp100 (sslScore s) = (if valid s then 100 else 30)"
  by (simp add: sslScore_value clamp100_def Math_round_def floor_eq_iff)

lemma calculateSignalScores_ssl:
  "SignalScores.ssl (calculateSignalScores sg t s)
     = (if valid (PageSignals.ssl sg) then 100 else 30)"
  by (simp add: calculateSignalScores_def Let_def clamp100_sslScore)

lemma enhanceSignals_ssl_valid:
  "valid (PageSignals.ssl (enhanceSignals env sg t)) = valid (PageSignals.ssl sg)"
  by (simp add: enhanceSignals_def enhanceSSL_valid)

text \<open>
  Claim C9. The ssl category score is 100 when \<open>signals.ssl.valid\<close> is true and 30 when it
  is false. The value does not depend on the issuer or on the reputation flags, both
  directly after \<open>calculateSignalScores\<close> and in the result of \<open>simulateAnalysis\<close>.
\<close>

theorem ssl_score_100_or_30:
  "SignalScores.ssl (calculateSignalScores sg isTrusted isSuspicious)
     = (if valid (PageSignals.ssl sg) then 100 else 30) \<and>
   SignalScores.ssl (signalScores (simulateAnalysis env sg))
     = (if valid (PageSignals.ssl sg) then 100 else 30)"
  by (simp add: simulateAnalysis_def Let_def calculateSignalScores_ssl
      enhanceSignals_ssl_valid)

theorem ssl_score_100_or_30_witness:
  "valid (PageSignals.ssl collectedSignals) \<and>
   SignalScores.ssl (calculateSignalScores collectedSignals False False) = 100 \<and>
   SignalScores.ssl (calculateSignalScores collectedSignals True False) = 100 \<and>
   \<not> valid (PageSignals.ssl suspiciousBundle) \<and>
   SignalScores.ssl (signalScores (simulateAnalysis drawsLow suspiciousBundle)) = 30"
  using ssl_score_100_or_30 [of collectedSignals False False drawsLow]
    ssl_score_100_or_30 [of collectedSignals True False drawsLow]
    ssl_score_100_or_30 [of suspiciousBundle False False drawsLow]
  by (simp add: collectedSignals_def suspiciousBundle_def)

text \<open>
  Claim C10. For every score the label of \<open>getScoreColor\<close> agrees with the verdict of
  \<open>getVerdictFromScore\<close>: Safe exactly when the verdict is safe, Caution exactly when it
  is warning, Risk exactly when it is danger.
\<close>

theorem getScoreColor_label_matches_verdict:
  "(label (getScoreColor score) = ''Safe'' \<longleftrightarrow> getVerdictFromScore score = safe) \<and>
   (label (getScoreColor score) = ''Caution'' \<longleftrightarrow> getVerdictFromScore score = warning) \<and>
   (label (getScoreColor score) = ''Risk'' \<longleftrightarrow> getVerdictFromScore score = danger)"
  by (simp add: getScoreColor_def getVerdictFromScore_def)

theorem getScoreColor_label_matches_verdict_witness:
  "label (getScoreColor 69) = ''Caution'' \<and> getVerdictFromScore 69 = warning \<and>
   label (getScoreColor 70) = ''Safe'' \<and> getVerdictFromScore 70 = safe \<and>
   label (getScoreColor (79 / 2)) = ''Risk'' \<and> getVerdictFromScore (79 / 2) = danger"
  using getScoreColor_label_matches_verdict [of 69]
    getScoreColor_label_matches_verdict [of 70]
    getScoreColor_label_matches_verdict [of "79 / 2"]
  by (simp add: getVerdictFromScore_def)


section \<open>Determinism of the analysis\<close>

lemma enhanceTrackers_same_draw:
  "detected ts \<noteq> [] \<or> rnd_numTrackers e1 = rnd_numTrackers e2 \<Longrightarrow>
   enhanceTrackers e1 t ts = enhanceTrackers e2 t ts"
  by (auto simp: enhanceTrackers_def Let_def)

lemma enhanceFingerprinting_same_draw:
  "techniques fs \<noteq> [] \<or> t \<or> rnd_techniques e1 = rnd_techniques e2 \<Longrightarrow>
   enhanceFingerprinting e1 t fs = enhanceFingerprinting e2 t fs"
  by (auto simp: enhanceFingerprinting_def Let_def)

lemma calculateSignalScores_same_draws:
  assumes "detected (PageSignals.trackers sg) \<noteq> [] \<or> rnd_numTrackers e1 = rnd_numTrackers e2"
    and "techniques (PageSignals.fingerprinting sg) \<noteq> [] \<or> t
         \<or> rnd_techniques e1 = rnd_techniques e2"
  shows "calculateSignalScores (enhanceSignals e1 sg t) t s
         = calculateSignalScores (enhanceSignals e2 sg t) t s"
  using enhanceTrackers_same_draw [OF assms(1), of t]
    enhanceFingerprinting_same_draw [OF assms(2)]
  by (simp add: calculateSignalScores_def enhanceSignals_def sslScore_value enhanceSSL_valid
      Let_def)

text \<open>
  Claim C3 as stated fails. The bundle \<open>suspiciousBundle\<close> lists no tracker and no
  fingerprinting technique, so \<open>enhanceSignals\<close> fills both in from \<open>Math.random()\<close>:
  with low draws the result has trust score 40 and verdict warning, with high draws
  trust score 36 and verdict danger.
\<close>

theorem simulateAnalysis_depends_on_random_draws:
  "signalScores (simulateAnalysis drawsLow suspiciousBundle)
     \<noteq> signalScores (simulateAnalysis drawsHigh suspiciousBundle) \<and>
   trustScore (simulateAnalysis drawsLow suspiciousBundle) = 40 \<and>
   trustScore (simulateAnalysis drawsHigh suspiciousBundle) = 36 \<and>
   verdict (simulateAnalysis drawsLow suspiciousBundle) = warning \<and>
   verdict (simulateAnalysis drawsHigh suspiciousBundle) = danger"
  by code_simp

text \<open>
  Claim C3, amended. The scores, the trust score and the verdict of \<open>simulateAnalysis\<close>
  are determined by the bundle and by two random draws of \<open>enhanceSignals\<close>: two
  evaluations on the same bundle agree when the bundle lists a detected tracker or both
  draw the same number for the tracker count, and the bundle lists a fingerprinting
  technique or its domain is trusted or both draw the same number for the techniques.
  The other draws and the clock do not reach the scores.
\<close>

theorem simulateAnalysis_deterministic_for_fixed_draws:
  assumes "detected (PageSignals.trackers sg) \<noteq> [] \<or> rnd_numTrackers e1 = rnd_numTrackers e2"
    and "techniques (PageSignals.fingerprinting sg) \<noteq> []
         \<or> isTrustedDomain (toLowerCase (PageSignals.domain sg))
         \<or> rnd_techniques e1 = rnd_techniques e2"
  shows "signalScores (simulateAnalysis e1 sg) = signalScores (simulateAnalysis e2 sg) \<and>
         trustScore (simulateAnalysis e1 sg) = trustScore (simulateAnalysis e2 sg) \<and>
         verdict (simulateAnalysis e1 sg) = verdict (simulateAnalysis e2 sg)"
  using calculateSignalScores_same_draws [OF assms]
  by (simp add: simulateAnalysis_def Let_def)

theorem simulateAnalysis_deterministic_for_fixed_draws_witness:
  "detected (PageSignals.trackers collectedSignals) \<noteq> [] \<and>
   techniques (PageSignals.fingerprinting collectedSignals) \<noteq> [] \<and>
   rnd_numTrackers drawsLow \<noteq> rnd_numTrackers drawsHigh \<and>
   signalScores (simulateAnalysis drawsLow collectedSignals)
     = signalScores (simulateAnalysis drawsHigh collectedSignals) \<and>
   trustScore (simulateAnalysis drawsLow collectedSignals)
     = trustScore (simulateAnalysis drawsHigh collectedSignals) \<and>
   verdict (simulateAnalysis drawsLow collectedSignals)
     = verdict (simulateAnalysis drawsHigh collectedSignals)"
proof -
  have a: "detected (PageSignals.trackers collectedSignals) \<noteq> []"
    and b: "techniques (PageSignals.fingerprinting collectedSignals) \<noteq> []"
    by (simp_all add: collectedSignals_def)
  have c: "rnd_numTrackers drawsLow \<noteq> rnd_numTrackers drawsHigh"
    by (simp add: drawsLow_def drawsHigh_def)
  from a have a': "detected (PageSignals.trackers collectedSignals) \<noteq> []
      \<or> rnd_numTrackers drawsLow = rnd_numTrackers drawsHigh" by simp
  from b have b': "techniques (PageSignals.fingerprinting collectedSignals) \<noteq> []
         \<or> isTrustedDomain (toLowerCase (PageSignals.domain collectedSignals))
         \<or> rnd_techniques drawsLow = rnd_techniques drawsHigh" by simp
  show ?thesis
    using simulateAnalysis_deterministic_for_fixed_draws [OF a' b'] a b c by simp
qed


section \<open>The result cache\<close>

lemma getSettings_setCachedResult:
  "getSettings io (setCachedResult io' ta tb d r w) = getSettings io w"
  by (simp add: getSettings_def setCachedResult_def Let_def)

lemma setCachedResult_stores:
  "cachedResults (setCachedResult storageWorks ta tb d r w)
     = Some ((case cachedResults w of Some c \<Rightarrow> c | None \<Rightarrow> Map.empty)
               (d \<mapsto> \<lparr>result = r, cachedAt = ta,
                       CachedAnalysis.expiresAt =
                         tb + ExtensionSettings.cacheExpiration (getSettings storageWorks w)
                                * 60 * 60 * 1000\<rparr>))"
  by (simp add: setCachedResult_def storageWorks_def Let_def)

lemma getCachedResult_live:
  assumes "cachedResults w = Some m" and "m d = Some c"
    and "\<not> CachedAnalysis.expiresAt c < t"
  shows "getCachedResult storageWorks t d w = (Some c, w)"
  using assms by (simp add: getCachedResult_def storageWorks_def)







section \<open>The offline queue\<close>

lemma getOfflineQueue_storageWorks:
  "getOfflineQueue storageWorks w = (case offlineQueue w of Some q \<Rightarrow> q | None \<Rightarrow> [])"
  by (simp add: getOfflineQueue_def storageWorks_def)

lemma addToOfflineQueue_stores:
  "offlineQueue (addToOfflineQueue storageWorks t_id digits t sg w)
     = Some (getOfflineQueue storageWorks w @
               [\<lparr>OfflineQueueItem.id = generateId t_id digits, OfflineQueueItem.signals = sg,
                 queuedAt = t, retryCount = 0\<rparr>])"
  "offlineQueueSize (extensionStatus (addToOfflineQueue storageWorks t_id digits t sg w))
     = int (length (getOfflineQueue storageWorks w)) + 1"
  by (simp_all add: addToOfflineQueue_def updateStatus_def storageWorks_def Let_def)

lemma removeFromOfflineQueue_stores:
  "offlineQueue (removeFromOfflineQueue storageWorks ident w)
     = Some (filter (\<lambda>x. OfflineQueueItem.id x \<noteq> ident) (getOfflineQueue storageWorks w))"
  "offlineQueueSize (extensionStatus (removeFromOfflineQueue storageWorks ident w))
     = int (length (filter (\<lambda>x. OfflineQueueItem.id x \<noteq> ident)
                      (getOfflineQueue storageWorks w)))"
  by (simp_all add: removeFromOfflineQueue_def updateStatus_def storageWorks_def Let_def)

lemma mirrored_after_write:
  assumes "\<not> setRejects io"
  shows "offlineQueue (addToOfflineQueue io t_id digits t sg w) \<noteq> None"
    and "offlineQueueSize (extensionStatus (addToOfflineQueue io t_id digits t sg w))
           = int (length (the (offlineQueue (addToOfflineQueue io t_id digits t sg w))))"
    and "offlineQueue (removeFromOfflineQueue io ident w) \<noteq> None"
    and "offlineQueueSize (extensionStatus (removeFromOfflineQueue io ident w))
           = int (length (the (offlineQueue (removeFromOfflineQueue io ident w))))"
  using assms
  by (simp_all add: addToOfflineQueue_def removeFromOfflineQueue_def updateStatus_def Let_def)




section \<open>Signal collection\<close>

lemma collect_timeout_case:
  assumes "delivered b" and "reply b = None"
  shows "fst (collectSignalsFromTab hostname now b tabId u w) =
           Some (Fulfilled (fallbackSignals hostname now u))"
    and "pendingSignalCollections (snd (collectSignalsFromTab hostname now b tabId u w)) tabId = None"
  using assms
  by (auto simp: collectSignalsFromTab_def registerCollection_def resolvePromise_def settle_def
      collectionTimeout_def Let_def delivered_def split: Outcome.splits)

lemma collect_injection_failure_case:
  assumes "firstSend b = Rejects e0" and "injection b = Rejects e"
  shows "fst (collectSignalsFromTab hostname now b tabId u w) = Some (Rejected e)"
    and "pendingSignalCollections (snd (collectSignalsFromTab hostname now b tabId u w)) tabId = None"
  using assms
  by (auto simp: collectSignalsFromTab_def registerCollection_def rejectPromise_def settle_def
      collectionTimeout_def Let_def delivered_def split: option.splits)

lemma fallbackSignals_minimal:
  "valid (PageSignals.ssl (fallbackSignals hostname now u)) = startsWith u ''https://'' \<and>
   issuer (PageSignals.ssl (fallbackSignals hostname now u)) = None \<and>
   count (PageSignals.cookies (fallbackSignals hostname now u)) = 0 \<and>
   thirdPartyCount (PageSignals.cookies (fallbackSignals hostname now u)) = 0 \<and>
   CookieSignal.cookies (PageSignals.cookies (fallbackSignals hostname now u)) = [] \<and>
   detected (PageSignals.trackers (fallbackSignals hostname now u)) = [] \<and>
   techniques (PageSignals.fingerprinting (fallbackSignals hostname now u)) = [] \<and>
   risk (PageSignals.fingerprinting (fallbackSignals hostname now u)) = low \<and>
   present (PageSignals.headers (fallbackSignals hostname now u)) = [] \<and>
   missing (PageSignals.headers (fallbackSignals hostname now u)) = [] \<and>
   issues (PageSignals.headers (fallbackSignals hostname now u)) = []"
  by (simp add: fallbackSignals_def)




text \<open>
  What holds for one collection on a tab while no other collection uses the same tab:
  a message without a pending waiter changes nothing, a message with one invokes the
  stored resolver once and removes it, the timer leaves no resolver behind, and message
  and timer together invoke the resolver exactly once, in either order.
\<close>

lemma handle_SIGNALS_COLLECTED_without_waiter:
  assumes "senderTab = None \<or> senderTab = Some 0
           \<or> (\<exists>tabId. senderTab = Some tabId \<and> pendingSignalCollections w tabId = None)"
  shows "handle_SIGNALS_COLLECTED senderTab sg w = w"
  using assms by (auto simp: handle_SIGNALS_COLLECTED_def split: option.splits)

lemma handle_SIGNALS_COLLECTED_with_waiter:
  assumes "tabId \<noteq> 0" and "pendingSignalCollections w tabId = Some p"
  shows "pendingSignalCollections (handle_SIGNALS_COLLECTED (Some tabId) sg w) tabId = None"
    and "resolveCalls (handle_SIGNALS_COLLECTED (Some tabId) sg w) = resolveCalls w @ [(p, sg)]"
  using assms
  by (auto simp: handle_SIGNALS_COLLECTED_def resolvePromise_def settle_def Let_def)

lemma collectionTimeout_clears:
  "pendingSignalCollections (collectionTimeout hostname now tabId p u w) tabId = None"
  by (auto simp: collectionTimeout_def resolvePromise_def settle_def)

lemma single_collection_resolved_once:
  assumes "tabId \<noteq> 0" and "registerCollection tabId w = (p, w1)"
  shows "resolveCalls (collectionTimeout hostname now tabId p u
                         (handle_SIGNALS_COLLECTED (Some tabId) sg w1))
           = resolveCalls w @ [(p, sg)]"
    and "resolveCalls (handle_SIGNALS_COLLECTED (Some tabId) sg
                         (collectionTimeout hostname now tabId p u w1))
           = resolveCalls w @ [(p, fallbackSignals hostname now u)]"
  using assms
  by (auto simp: registerCollection_def handle_SIGNALS_COLLECTED_def collectionTimeout_def
      resolvePromise_def settle_def Let_def)

text \<open>
  Claim C7 says that for every tab a pending waiter is resolved exactly once and never
  left dangling, and that a timer that fires causes no double resolution. The trace
  \<open>staleTimerTrace\<close> breaks it: the timer of the first collection, already resolved by
  its message, finds the resolver of the second collection under the same tab
  identifier, removes it and invokes the first resolver a second time. The second
  promise (number 1) stays pending: its own timer finds no resolver, a late
  \<open>SIGNALS_COLLECTED\<close> message is dropped, and the request that awaits it is never
  answered.
\<close>

theorem stale_timer_strands_second_waiter:
  "promises staleTimerTrace 0 = Some (Fulfilled collectedSignals) \<and>
   promises staleTimerTrace 1 = Some Pending \<and>
   awaitCollection (promises staleTimerTrace 1) = Waiting \<and>
   pendingSignalCollections staleTimerTrace 7 = None \<and>
   resolveCalls staleTimerTrace =
     [(0, collectedSignals),
      (0, fallbackSignals exampleHostname 10000 ''https://example.org/'')] \<and>
   handle_SIGNALS_COLLECTED (Some 7) collectedSignals staleTimerTrace = staleTimerTrace"
  by (simp add: staleTimerTrace_def registerCollection_def initialWorker_def
      handle_SIGNALS_COLLECTED_def resolvePromise_def settle_def collectionTimeout_def
      awaitCollection_def Let_def)

end
